theory Spec2Isabelle
  imports Complex_Main
begin

section \<open>Data model\<close>

text \<open>
  The module \<open>solartoolbox/signalproc.py\<close> computes with numpy arrays and pandas
  Series. A Series is an index and a data column of the same length together with the
  element type of the column. Floating-point numbers are identified with the real
  (complex) numbers: rounding is not modelled, and wherever numpy would produce a
  non-finite value (a division by zero) the theorems exclude the input by a hypothesis,
  or the model makes the non-finite value explicit.
\<close>

datatype error = IndexError | ZeroDivisionError | ValueError string

datatype dtype = Float64 | Complex64 | Complex128

record ('i, 'v) series =
  index :: "'i list"
  vals :: "'v list"
  dtype :: dtype

section \<open>Frequency-axis cleanup\<close>

text \<open>
  \<^verbatim>\<open>
  def cleanfreq(sig):
      idxlist = sig.index.to_list()
      idxlist[len(sig.index) // 2] = None
      sig.index = idxlist
  \<close>
  The function mutates its argument and has no \<open>return\<close> statement. The model
  returns the outcome of the call (\<open>Inr ()\<close> for Python's \<open>None\<close>, \<open>Inl\<close> for a
  raised exception) together with the argument as it is after the call. An index entry
  is \<open>Some f\<close> for a frequency and \<open>None\<close> for the null marker. Assigning to a
  position of an empty Python list raises \<open>IndexError\<close> before the index is replaced.
\<close>

definition cleanfreq ::
  "('i option, 'v) series \<Rightarrow> (error + unit) \<times> ('i option, 'v) series" where
  "cleanfreq sig =
     (let idxlist = index sig;
          k = length (index sig) div 2
      in if k < length idxlist
         then (Inr (), sig\<lparr>index := idxlist[k := None]\<rparr>)
         else (Inl IndexError, sig))"

section \<open>One-dimensional plant layout\<close>

text \<open>
  \<open>shape.lower()\<close> on the footprint tag. Strings are ASCII here; a string with a
  character outside ASCII does not lower-case to \<open>square\<close>, \<open>triangle\<close> or
  \<open>gaussian\<close>.
\<close>

definition lower_char :: "char \<Rightarrow> char" where
  "lower_char c =
     (let n = (of_char c :: nat) in if 65 \<le> n \<and> n \<le> 90 then char_of (n + 32) else c)"

definition lower :: "string \<Rightarrow> string" where
  "lower s = map lower_char s"

text \<open>
  \<open>np.arange(start, stop, step)\<close>: the values \<open>start + i * step\<close> for
  \<open>0 \<le> i < ceil((stop - start) / step)\<close>; a zero step raises.
\<close>

definition arange :: "real \<Rightarrow> real \<Rightarrow> real \<Rightarrow> error + real list" where
  "arange start stop step =
     (if step = 0 then Inl ZeroDivisionError
      else Inr (map (\<lambda>i. start + real i * step) [0..<nat \<lceil>(stop - start) / step\<rceil>]))"

text \<open>
  The boolean mask of one site,
  \<open>np.bitwise_and(x_vec >= (center - w / 2), x_vec < (center + w / 2))\<close>,
  and the three loop bodies: \<open>plant[inds] = 1\<close>,
  \<open>plant[inds] = x_vec[inds] - center+w/2\<close> and
  \<open>plant += np.exp(-(x_vec-center)**2/(2*(w/2.355)**2))\<close>.
\<close>

definition in_span :: "real \<Rightarrow> real \<Rightarrow> real \<Rightarrow> bool" where
  "in_span w center x \<longleftrightarrow> x \<ge> center - w / 2 \<and> x < center + w / 2"

definition place_square :: "real \<Rightarrow> real list \<Rightarrow> real list \<Rightarrow> real \<Rightarrow> real list" where
  "place_square w x_vec plant center =
     map2 (\<lambda>x p. if in_span w center x then 1 else p) x_vec plant"

definition place_triangle :: "real \<Rightarrow> real list \<Rightarrow> real list \<Rightarrow> real \<Rightarrow> real list" where
  "place_triangle w x_vec plant center =
     map2 (\<lambda>x p. if in_span w center x then x - center + w / 2 else p) x_vec plant"

definition add_gaussian :: "real \<Rightarrow> real list \<Rightarrow> real list \<Rightarrow> real \<Rightarrow> real list" where
  "add_gaussian w x_vec plant center =
     map2 (\<lambda>x p. p + exp (- (x - center)\<^sup>2 / (2 * (w / 2.355)\<^sup>2))) x_vec plant"

text \<open>
  \<^verbatim>\<open>
  def get_1d_plant(centers, ref_center=0, width=None, shape="square",
                   dx=1, xmax=500000):
      if width is None: w = dx
      else: w = width
      centers = np.array(centers).flatten()
      centers -= ref_center
      x_vec = np.arange(-xmax//2, xmax//2, dx)
      plant = np.zeros(x_vec.shape, dtype=float)
      if shape.lower() == "square":
          for center in centers: ...
      elif shape.lower() == "triangle":
          for center in centers: ...
      elif shape.lower() == "gaussian":
          for center in centers: ...
      else:
          raise ValueError("No info for plant shape: {}".format(shape))
      return plant, x_vec
  \<close>
  \<open>-xmax//2\<close> is Python's floor division of \<open>-xmax\<close> by 2. Each \<open>for\<close> loop over the
  centers is a left fold of its body over the list. With \<open>w = 0\<close> the Gaussian
  exponent divides by zero and numpy yields non-finite values; the model is meant for
  \<open>w \<noteq> 0\<close> there.
\<close>

definition get_1d_plant ::
  "real list \<Rightarrow> real \<Rightarrow> real option \<Rightarrow> string \<Rightarrow> real \<Rightarrow> real
     \<Rightarrow> error + (real list \<times> real list)" where
  "get_1d_plant centers ref_center width shape dx xmax =
     (let w = (case width of None \<Rightarrow> dx | Some wd \<Rightarrow> wd);
          centers' = map (\<lambda>c. c - ref_center) centers
      in case arange (of_int \<lfloor>- xmax / 2\<rfloor>) (of_int \<lfloor>xmax / 2\<rfloor>) dx of
           Inl e \<Rightarrow> Inl e
         | Inr x_vec \<Rightarrow>
             (let plant = map (\<lambda>_. 0) x_vec
              in if lower shape = ''square''
                 then Inr (foldl (place_square w x_vec) plant centers', x_vec)
                 else if lower shape = ''triangle''
                 then Inr (foldl (place_triangle w x_vec) plant centers', x_vec)
                 else if lower shape = ''gaussian''
                 then Inr (foldl (add_gaussian w x_vec) plant centers', x_vec)
                 else Inl (ValueError (''No info for plant shape: '' @ shape))))"

section \<open>The numerical collaborator\<close>

text \<open>
  The functions of numpy and scipy that the module calls, by their documented
  definitions over exact numbers.

  \<open>np.fft.fft\<close> and \<open>np.fft.ifft\<close>:
  \<open>A\<^sub>k = \<Sum>\<^sub>m a\<^sub>m exp(-2\<pi>i mk/n)\<close> and
  \<open>a\<^sub>m = (1/n) \<Sum>\<^sub>k A\<^sub>k exp(2\<pi>i mk/n)\<close>.
\<close>

definition fft :: "complex list \<Rightarrow> complex list" where
  "fft a =
     (let n = length a
      in map (\<lambda>k. \<Sum>m\<leftarrow>[0..<n]. a ! m * cis (- (2 * pi * real m * real k / real n))) [0..<n])"


text \<open>
  \<open>np.fft.fftfreq(n, d)\<close>: the integers \<open>0, \<dots>, (n-1)//2, -(n//2), \<dots>, -1\<close>, each
  multiplied by \<open>1.0 / (n * d)\<close>. The caller decides what a zero \<open>d\<close> does.
\<close>

definition fftfreq :: "nat \<Rightarrow> real \<Rightarrow> real list" where
  "fftfreq n d =
     map (\<lambda>k. real_of_int k * (1 / (real n * d)))
       ([0..(int n - 1) div 2] @ [- (int n div 2)..- 1])"

text \<open>
  \<open>np.linspace(start, stop, num)\<close> with the end point included: \<open>num\<close> points with
  step \<open>(stop - start) / (num - 1)\<close>, the last one set to \<open>stop\<close>.
\<close>

definition linspace :: "real \<Rightarrow> real \<Rightarrow> nat \<Rightarrow> real list" where
  "linspace start stop num =
     (if num = 0 then []
      else if num = 1 then [start]
      else (map (\<lambda>i. start + real i * ((stop - start) / real (num - 1))) [0..<num])
             [num - 1 := stop])"










section \<open>Interpolating and applying a transfer function\<close>




section \<open>Cloud advection model filter\<close>

text \<open>
  \<^verbatim>\<open>
  def plant1d_to_camfilter(plant, x_plant, cloud_speed):
      dx = x_plant[1]-x_plant[0]
      plant = plant / np.sum(plant)  # normalize the plant
      camfilt = np.fft.fft(plant)  # What does it look like in f domain
      spatialdt = dx / np.abs(cloud_speed)  # Effective dt for cloud motion
      camfreq = np.fft.fftfreq(plant.shape[-1], spatialdt)
      t_delay = np.min(x_plant) / cloud_speed
      if cloud_speed > 0:
          camfilt = camfilt * np.exp(
              1j * camfreq * (2 * np.pi) * t_delay)
      else:
          camfilt = np.conj(
              camfilt * np.exp(1j * camfreq * (2 * np.pi) * -t_delay))
      return pd.Series(camfilt, index=camfreq)
  \<close>
  \<open>x_plant[1]\<close> raises on fewer than two positions and \<open>np.fft.fft\<close> raises on an
  empty density. The divisions are numpy divisions: a zero density sum, a zero grid step
  or a zero speed gives non-finite values, not an exception; the model is meant for
  inputs where all three are non-zero.
\<close>

definition plant1d_to_camfilter ::
  "real list \<Rightarrow> real list \<Rightarrow> real \<Rightarrow> error + (real, complex) series" where
  "plant1d_to_camfilter plant x_plant cloud_speed =
     (case x_plant of
        x0 # x1 # _ \<Rightarrow>
          if plant = []
          then Inl (ValueError ''Invalid number of FFT data points (0) specified.'')
          else
            (let dx = x1 - x0;
                 plant' = map (\<lambda>p. p / sum_list plant) plant;
                 camfilt = fft (map complex_of_real plant');
                 spatialdt = dx / \<bar>cloud_speed\<bar>;
                 camfreq = fftfreq (length plant') spatialdt;
                 t_delay = Min (set x_plant) / cloud_speed;
                 camfilt' =
                   (if 0 < cloud_speed
                    then map2 (\<lambda>c f. c * exp (\<i> * of_real f * (2 * of_real pi)
                                                 * of_real t_delay))
                           camfilt camfreq
                    else map2 (\<lambda>c f. cnj (c * exp (\<i> * of_real f * (2 * of_real pi)
                                                      * of_real (- t_delay))))
                           camfilt camfreq)
             in Inr \<lparr>index = camfreq, vals = camfilt', dtype = Complex128\<rparr>)
      | _ \<Rightarrow> Inl IndexError)"

section \<open>Marcos filter\<close>

text \<open>
  \<^verbatim>\<open>
  def get_marcosfilter(s, freq=None):
      if freq is None:
          freq = np.linspace(0, 0.5, 100)
      k = 1
      fc = 0.02 / np.sqrt(s)
      filt = k / (1j * freq / fc + 1)
      return pd.Series(filt, index=freq, dtype=np.complex64)
  \<close>
  The model is meant for a positive area \<open>s\<close>.
\<close>

definition get_marcosfilter :: "real \<Rightarrow> real list option \<Rightarrow> (real, complex) series" where
  "get_marcosfilter s freq =
     (let freq' = (case freq of None \<Rightarrow> linspace 0 0.5 100 | Some fr \<Rightarrow> fr);
          k = 1;
          fc = 0.02 / sqrt s;
          filt = map (\<lambda>f. k / (\<i> * of_real f / of_real fc + 1)) freq'
      in \<lparr>index = freq', vals = filt, dtype = Complex64\<rparr>)"

section \<open>Averaged spectral estimates\<close>

text \<open>
  \<open>scipy.signal.csd\<close>, \<open>welch\<close> and \<open>coherence\<close> for one-dimensional real signals,
  as the module calls them: the signal is cut into segments of \<open>nperseg\<close> samples that
  overlap by \<open>noverlap\<close>, each segment is detrended, multiplied by the window and
  transformed by \<open>rfft\<close>; the products \<open>conj(X) * Y\<close> are scaled, doubled away from
  the zero and Nyquist bins, and averaged over the segments.

  The table of window names belongs to scipy and is a parameter \<open>gw\<close> of the model (the
  window of a given name and length, or the error for an unknown name);
  \<open>scipy_get_window\<close> below gives the entries for \<open>hann\<close> (of which \<open>hanning\<close> was an
  alias) and \<open>boxcar\<close>.
\<close>

type_synonym get_window = "string \<Rightarrow> nat \<Rightarrow> error + real list"

definition hann :: "nat \<Rightarrow> real list" where
  "hann M =
     (if M \<le> 1 then replicate M 1
      else map (\<lambda>n. 1 / 2 - 1 / 2 * cos (2 * pi * real n / real M)) [0..<M])"

definition scipy_get_window :: get_window where
  "scipy_get_window name M =
     (if name = ''hann'' \<or> name = ''hanning'' then Inr (hann M)
      else if name = ''boxcar'' then Inr (replicate M 1)
      else Inl (ValueError ''Unknown window type.''))"

text \<open>
  \<open>scipy.signal.detrend\<close>: \<open>constant\<close> subtracts the mean; \<open>linear\<close> subtracts the
  least-squares line over the abscissae \<open>1/N, 2/N, \<dots>, 1\<close>. On a single sample the
  fit is exact and the residual is 0, which is what the formula below gives as well.
\<close>

definition detrend_constant :: "real list \<Rightarrow> real list" where
  "detrend_constant d = map (\<lambda>v. v - sum_list d / real (length d)) d"

definition detrend_linear :: "real list \<Rightarrow> real list" where
  "detrend_linear d =
     (let N = length d;
          t = map (\<lambda>i. real (i + 1) / real N) [0..<N];
          tbar = sum_list t / real N;
          ybar = sum_list d / real N;
          sxx = (\<Sum>ti\<leftarrow>t. (ti - tbar)\<^sup>2);
          sxy = (\<Sum>(ti, yi)\<leftarrow>zip t d. (ti - tbar) * (yi - ybar));
          slope = sxy / sxx
      in map2 (\<lambda>ti yi. yi - (ybar + slope * (ti - tbar))) t d)"

definition detrend_func :: "string \<Rightarrow> error + (real list \<Rightarrow> real list)" where
  "detrend_func type =
     (if type = ''linear'' \<or> type = ''l'' then Inr detrend_linear
      else if type = ''constant'' \<or> type = ''c'' then Inr detrend_constant
      else Inl (ValueError ''Trend type must be 'linear' or 'constant'.''))"

definition rfft :: "real list \<Rightarrow> complex list" where
  "rfft a = take (length a div 2 + 1) (fft (map complex_of_real a))"

definition rfftfreq :: "nat \<Rightarrow> real \<Rightarrow> real list" where
  "rfftfreq n d = map (\<lambda>k. real k * (1 / (real n * d))) [0..<n div 2 + 1]"

definition segments :: "nat \<Rightarrow> int \<Rightarrow> real list \<Rightarrow> real list list" where
  "segments nperseg noverlap x =
     (if nperseg = 1 \<and> noverlap = 0 then map (\<lambda>v. [v]) x
      else
        (let step = nat (int nperseg - noverlap)
         in map (\<lambda>i. take nperseg (drop (i * step) x))
              [0..<nat ((int (length x) - noverlap) div int step)]))"

definition fft_helper ::
  "real list \<Rightarrow> real list \<Rightarrow> string \<Rightarrow> nat \<Rightarrow> int \<Rightarrow> error + complex list list" where
  "fft_helper x win detrend nperseg noverlap =
     (case detrend_func detrend of
        Inl e \<Rightarrow> Inl e
      | Inr f \<Rightarrow> Inr (map (\<lambda>seg. rfft (map2 (*) win (f seg))) (segments nperseg noverlap x)))"

definition scale_of :: "string \<Rightarrow> real \<Rightarrow> real list \<Rightarrow> error + real" where
  "scale_of scaling fs win =
     (if scaling = ''density'' then Inr (1 / (fs * (\<Sum>w\<leftarrow>win. w * w)))
      else if scaling = ''spectrum'' then Inr (1 / (sum_list win)\<^sup>2)
      else Inl (ValueError (''Unknown scaling: '' @ scaling)))"

text \<open>
  \<open>result[..., 1:] *= 2\<close> for an odd transform length, \<open>result[..., 1:-1] *= 2\<close> for
  an even one.
\<close>

definition onesided_double :: "nat \<Rightarrow> complex list \<Rightarrow> complex list" where
  "onesided_double nfft P =
     map (\<lambda>j. if 1 \<le> j \<and> (odd nfft \<or> j + 1 < length P) then P ! j * 2 else P ! j)
       [0..<length P]"

text \<open>
  \<open>_spectral_helper\<close> in mode \<open>psd\<close>: one spectrum per segment. The shorter signal is
  padded with zeros, a segment length above the signal length is reduced to it.
\<close>

definition spectral_helper ::
  "get_window \<Rightarrow> real list \<Rightarrow> real list \<Rightarrow> real \<Rightarrow> string \<Rightarrow> int \<Rightarrow> int \<Rightarrow> string \<Rightarrow> string
     \<Rightarrow> error + complex list list" where
  "spectral_helper gw x y fs window nperseg noverlap detrend scaling =
     (if x = [] \<or> y = [] then Inr []
      else
        (let n = max (length x) (length y);
             x' = x @ replicate (n - length x) 0;
             y' = y @ replicate (n - length y) 0
         in if nperseg < 1 then Inl (ValueError ''nperseg must be a positive integer'')
            else
              (let nps = min (nat nperseg) n
               in case gw window nps of
                    Inl e \<Rightarrow> Inl e
                  | Inr win \<Rightarrow>
                      if int nps \<le> noverlap
                      then Inl (ValueError ''noverlap must be less than nperseg.'')
                      else
                        (case scale_of scaling fs win of
                           Inl e \<Rightarrow> Inl e
                         | Inr scale \<Rightarrow>
                             (case fft_helper x' win detrend nps noverlap of
                                Inl e \<Rightarrow> Inl e
                              | Inr result \<Rightarrow>
                                  (case fft_helper y' win detrend nps noverlap of
                                     Inl e \<Rightarrow> Inl e
                                   | Inr result_y \<Rightarrow>
                                       Inr (map2 (\<lambda>sx sy.
                                              onesided_double nps
                                                (map2 (\<lambda>a b. cnj a * b * of_real scale) sx sy))
                                            result result_y)))))))"

text \<open>
  \<open>csd\<close> averages over the segments (\<open>Pxy.mean(axis=-1)\<close>, or the single segment as it
  is); \<open>welch\<close> is the real part of \<open>csd(x, x)\<close>; \<open>coherence\<close> is
  \<open>np.abs(Pxy)**2 / Pxx / Pyy\<close>. A numpy division by zero gives a non-finite value
  (\<open>nan\<close> or \<open>inf\<close>), written \<open>None\<close>.
\<close>

definition csd ::
  "get_window \<Rightarrow> real list \<Rightarrow> real list \<Rightarrow> real \<Rightarrow> string \<Rightarrow> int \<Rightarrow> int \<Rightarrow> string \<Rightarrow> string
     \<Rightarrow> error + complex list" where
  "csd gw x y fs window nperseg noverlap detrend scaling =
     (case spectral_helper gw x y fs window nperseg noverlap detrend scaling of
        Inl e \<Rightarrow> Inl e
      | Inr Pxy \<Rightarrow>
          (case Pxy of
             [] \<Rightarrow> Inr []
           | [P] \<Rightarrow> Inr P
           | P # _ \<Rightarrow>
               Inr (map (\<lambda>j. (\<Sum>s\<leftarrow>Pxy. s ! j) / of_nat (length Pxy)) [0..<length P])))"

definition welch ::
  "get_window \<Rightarrow> real list \<Rightarrow> real \<Rightarrow> string \<Rightarrow> int \<Rightarrow> int \<Rightarrow> string \<Rightarrow> string
     \<Rightarrow> error + real list" where
  "welch gw x fs window nperseg noverlap detrend scaling =
     (case csd gw x x fs window nperseg noverlap detrend scaling of
        Inl e \<Rightarrow> Inl e
      | Inr Pxx \<Rightarrow> Inr (map Re Pxx))"

definition np_divide :: "'a::field \<Rightarrow> 'a \<Rightarrow> 'a option" where
  "np_divide a b = (if b = 0 then None else Some (a / b))"

definition broadcast2 :: "('a \<Rightarrow> 'b \<Rightarrow> 'c) \<Rightarrow> 'a list \<Rightarrow> 'b list \<Rightarrow> error + 'c list" where
  "broadcast2 f xs ys =
     (if length xs = length ys then Inr (map2 f xs ys)
      else if length xs = 1 then Inr (map (f (hd xs)) ys)
      else if length ys = 1 then Inr (map (\<lambda>x. f x (hd ys)) xs)
      else Inl (ValueError ''operands could not be broadcast together''))"

definition coherence ::
  "get_window \<Rightarrow> real list \<Rightarrow> real list \<Rightarrow> real \<Rightarrow> string \<Rightarrow> int \<Rightarrow> int \<Rightarrow> string
     \<Rightarrow> error + real option list" where
  "coherence gw x y fs window nperseg noverlap detrend =
     (case welch gw x fs window nperseg noverlap detrend ''density'' of
        Inl e \<Rightarrow> Inl e
      | Inr Pxx \<Rightarrow>
          (case welch gw y fs window nperseg noverlap detrend ''density'' of
             Inl e \<Rightarrow> Inl e
           | Inr Pyy \<Rightarrow>
               (case csd gw x y fs window nperseg noverlap detrend ''density'' of
                  Inl e \<Rightarrow> Inl e
                | Inr Pxy \<Rightarrow>
                    (case broadcast2 (\<lambda>c p. np_divide ((cmod c)\<^sup>2) p) Pxy Pxx of
                       Inl e \<Rightarrow> Inl e
                     | Inr q \<Rightarrow>
                         broadcast2 (\<lambda>a p. case a of None \<Rightarrow> None | Some v \<Rightarrow> np_divide v p)
                           q Pyy))))"

text \<open>
  \<^verbatim>\<open>
  def averaged_psd(input_tsig, navgs, overlap=0.5,
                   window='hanning', detrend='linear', scaling='density'):
      dt = (input_tsig.index[1] - input_tsig.index[0]).total_seconds()
      fs = 1/dt
      nperseg = int(len(input_tsig) // navgs)
      noverlap = int(nperseg * overlap)
      f, psdxx = signal.welch(input_tsig, fs=fs, window=window,
                              nperseg=nperseg, detrend=detrend,
                              noverlap=noverlap, scaling=scaling)
      return pd.Series(psdxx, index=f)
  \<close>
  \<open>int\<close> of a float truncates towards zero; \<open>1/dt\<close> and \<open>// navgs\<close> raise on zero.
\<close>

definition py_int :: "real \<Rightarrow> int" where
  "py_int r = (if 0 \<le> r then \<lfloor>r\<rfloor> else \<lceil>r\<rceil>)"

definition averaged_psd ::
  "get_window \<Rightarrow> (real, real) series \<Rightarrow> int \<Rightarrow> real \<Rightarrow> string \<Rightarrow> string \<Rightarrow> string
     \<Rightarrow> error + (real, real) series" where
  "averaged_psd gw input_tsig navgs overlap window detrend scaling =
     (case index input_tsig of
        t0 # t1 # _ \<Rightarrow>
          (let dt = t1 - t0
           in if dt = 0 then Inl ZeroDivisionError
              else
                (let fs = 1 / dt
                 in if navgs = 0 then Inl ZeroDivisionError
                    else
                      (let nperseg = int (length (vals input_tsig)) div navgs;
                           noverlap = py_int (real_of_int nperseg * overlap)
                       in case welch gw (vals input_tsig) fs window nperseg noverlap detrend
                                 scaling of
                            Inl e \<Rightarrow> Inl e
                          | Inr psdxx \<Rightarrow>
                              Inr \<lparr>index = rfftfreq (min (nat nperseg) (length (vals input_tsig)))
                                            (1 / fs),
                                   vals = psdxx, dtype = Float64\<rparr>)))
      | _ \<Rightarrow> Inl IndexError)"

text \<open>
  \<^verbatim>\<open>
  def averaged_tf(input_tsig, output_tsig,
                  navgs, overlap=0.5, window='hanning', detrend='linear'):
      dt = (input_tsig.index[1] - input_tsig.index[0]).total_seconds()
      fs = 1/dt
      nperseg = int(len(input_tsig) // navgs)
      noverlap = int(nperseg * overlap)
      psdxx = averaged_psd(input_tsig, window=window, navgs=navgs,
                           detrend=detrend, overlap=overlap, scaling='density')
      _, csdxy = signal.csd(input_tsig, output_tsig, fs=fs, window=window,
                            nperseg=nperseg, detrend=detrend,
                            noverlap=noverlap)
      tf = csdxy / psdxx
      _, coh = signal.coherence(input_tsig, output_tsig, fs=fs, window=window,
                                nperseg=nperseg, noverlap=noverlap,
                                detrend=detrend)
      output = pd.DataFrame({'tf': tf, 'coh': coh}, index=psdxx.index)
      return output
  \<close>
  The result is a frame with the columns \<open>tf\<close> and \<open>coh\<close> (\<open>tf_column\<close>,
  \<open>coh_column\<close>) on the frequency index of the spectral density; a column of another length than the index is refused by pandas.
\<close>

record tf_frame =
  freq_index :: "real list"
  tf_column :: "complex option list"
  coh_column :: "real option list"

definition averaged_tf ::
  "get_window \<Rightarrow> (real, real) series \<Rightarrow> (real, real) series \<Rightarrow> int \<Rightarrow> real \<Rightarrow> string \<Rightarrow> string
     \<Rightarrow> error + tf_frame" where
  "averaged_tf gw input_tsig output_tsig navgs overlap window detrend =
     (case index input_tsig of
        t0 # t1 # _ \<Rightarrow>
          (let dt = t1 - t0
           in if dt = 0 then Inl ZeroDivisionError
              else
                (let fs = 1 / dt
                 in if navgs = 0 then Inl ZeroDivisionError
                    else
                      (let nperseg = int (length (vals input_tsig)) div navgs;
                           noverlap = py_int (real_of_int nperseg * overlap)
                       in case averaged_psd gw input_tsig navgs overlap window detrend
                                 ''density'' of
                            Inl e \<Rightarrow> Inl e
                          | Inr psdxx \<Rightarrow>
                              (case csd gw (vals input_tsig) (vals output_tsig) fs window
                                      nperseg noverlap detrend ''density'' of
                                 Inl e \<Rightarrow> Inl e
                               | Inr csdxy \<Rightarrow>
                                   (case coherence gw (vals input_tsig) (vals output_tsig) fs
                                           window nperseg noverlap detrend of
                                      Inl e \<Rightarrow> Inl e
                                    | Inr coh \<Rightarrow>
                                        if length coh \<noteq> length (index psdxx)
                                        then Inl (ValueError
                                               ''Length of values does not match length of index'')
                                        else
                                          Inr \<lparr>freq_index = index psdxx,
                                               tf_column =
                                                 map2 (\<lambda>c p. np_divide c (complex_of_real p))
                                                   csdxy (vals psdxx),
                                               coh_column = coh\<rparr>)))))
      | _ \<Rightarrow> Inl IndexError)"

section \<open>Properties of the frequency-axis cleanup\<close>

text \<open>
  Claim C9. For a spectrum whose index has length \<open>N\<close>, after \<open>cleanfreq\<close> the index
  still has length \<open>N\<close>, position \<open>N div 2\<close> holds the null marker, every other
  position holds what it held before, and the data column and its element type are
  unchanged. The call completes whenever \<open>N > 0\<close>; for \<open>N = 0\<close> there is no
  middle position, the call raises and the spectrum is as it was.
\<close>

theorem cleanfreq_frame:
  "length (index (snd (cleanfreq sig))) = length (index sig) \<and>
   (\<forall>i < length (index sig).
      index (snd (cleanfreq sig)) ! i =
        (if i = length (index sig) div 2 then None else index sig ! i)) \<and>
   vals (snd (cleanfreq sig)) = vals sig \<and>
   dtype (snd (cleanfreq sig)) = dtype sig \<and>
   (0 < length (index sig) \<longrightarrow> fst (cleanfreq sig) = Inr ())"
proof -
  have "length (index sig) div 2 < length (index sig)" if "0 < length (index sig)"
    using that by simp
  then show ?thesis
    by (auto simp: cleanfreq_def Let_def)
qed

theorem cleanfreq_frame_witness:
  "index (snd (cleanfreq \<lparr>index = [Some (0::int), Some 1, Some (-2), Some (-1)],
                          vals = [10::int, 20, 30, 40], dtype = Float64\<rparr>))
     = [Some 0, Some 1, None, Some (-1)] \<and>
   vals (snd (cleanfreq \<lparr>index = [Some (0::int), Some 1, Some (-2), Some (-1)],
                         vals = [10::int, 20, 30, 40], dtype = Float64\<rparr>))
     = [10, 20, 30, 40] \<and>
   fst (cleanfreq \<lparr>index = [Some (0::int), Some 1, Some (-2), Some (-1)],
                   vals = [10::int, 20, 30, 40], dtype = Float64\<rparr>) = Inr ()"
proof -
  let ?s = "\<lparr>index = [Some (0::int), Some 1, Some (-2), Some (-1)],
             vals = [10::int, 20, 30, 40], dtype = Float64\<rparr>"
  have len: "length (index ?s) = 4" by simp
  from cleanfreq_frame [of ?s]
  have n: "length (index (snd (cleanfreq ?s))) = 4"
    and a: "\<forall>i < 4. index (snd (cleanfreq ?s)) ! i =
              (if i = 2 then None else index ?s ! i)"
    and v: "vals (snd (cleanfreq ?s)) = vals ?s"
    and r: "fst (cleanfreq ?s) = Inr ()"
    by simp_all
  have "index (snd (cleanfreq ?s)) ! 0 = Some 0"
       "index (snd (cleanfreq ?s)) ! 1 = Some 1"
       "index (snd (cleanfreq ?s)) ! 2 = None"
       "index (snd (cleanfreq ?s)) ! 3 = Some (-1)"
    using a by simp_all
  with n have "index (snd (cleanfreq ?s)) = [Some 0, Some 1, None, Some (-1)]"
    by (auto simp: list_eq_iff_nth_eq nth_Cons' less_Suc_eq numeral_eq_Suc split: if_splits)
  with v r show ?thesis by simp
qed

text \<open>
  Claim C10, as stated: for every input spectrum the call returns \<open>None\<close>. On a spectrum
  with an empty index the call raises \<open>IndexError\<close> instead of returning.
\<close>

theorem cleanfreq_empty_raises:
  "cleanfreq \<lparr>index = ([] :: real option list), vals = ([] :: complex list),
              dtype = Complex128\<rparr>
   = (Inl IndexError,
      \<lparr>index = [], vals = [], dtype = Complex128\<rparr>)"
  by (simp add: cleanfreq_def)

text \<open>
  Claim C10, amended: for every spectrum with a non-empty index, \<open>cleanfreq\<close> returns
  \<open>None\<close> and the adjusted spectrum is the mutated argument: its index with the null
  marker at the middle position, everything else as before.
\<close>

theorem cleanfreq_returns_none:
  "index sig \<noteq> [] \<Longrightarrow>
   fst (cleanfreq sig) = Inr () \<and>
   snd (cleanfreq sig) = sig\<lparr>index := (index sig)[length (index sig) div 2 := None]\<rparr>"
  by (simp add: cleanfreq_def Let_def)

theorem cleanfreq_returns_none_witness:
  "index \<lparr>index = [Some (0::int), Some 1, Some (-1)], vals = [1::int, 2, 3],
          dtype = Float64\<rparr> \<noteq> [] \<and>
   fst (cleanfreq \<lparr>index = [Some (0::int), Some 1, Some (-1)], vals = [1::int, 2, 3],
                   dtype = Float64\<rparr>) = Inr () \<and>
   snd (cleanfreq \<lparr>index = [Some (0::int), Some 1, Some (-1)], vals = [1::int, 2, 3],
                   dtype = Float64\<rparr>)
     = \<lparr>index = [Some 0, None, Some (-1)], vals = [1, 2, 3], dtype = Float64\<rparr>"
  using cleanfreq_returns_none
    [of "\<lparr>index = [Some (0::int), Some 1, Some (-1)], vals = [1::int, 2, 3],
          dtype = Float64\<rparr>"]
  by simp

section \<open>Properties of the plant layout\<close>

lemma lower_eval:
  "lower [] = []" "lower (c # cs) = lower_char c # lower cs"
  by (simp_all add: lower_def)

lemmas plant_eval = get_1d_plant_def arange_def lower_eval lower_char_def char_of_eq_iff
  upt_rec [of _ "numeral _"] place_square_def place_triangle_def add_gaussian_def in_span_def

lemma map2_map2_same:
  "map2 f xs (map2 h xs ps) = map2 (\<lambda>x p. f x (h x p)) xs ps"
  by (induction xs arbitrary: ps) (auto simp: zip_Cons1 split: list.splits)

lemma map2_const_right:
  "map2 f xs (map (\<lambda>_. z) xs) = map (\<lambda>x. f x z) xs"
  by (induction xs) auto

lemma foldl_overwrite:
  "length ps = length xs \<Longrightarrow>
   foldl (\<lambda>pl c. map2 (\<lambda>x p. if P c x then g c x else p) xs pl) ps cs
   = map2 (\<lambda>x p. case find (\<lambda>c. P c x) (rev cs) of None \<Rightarrow> p | Some c \<Rightarrow> g c x) xs ps"
proof (induction cs rule: rev_induct)
  case Nil
  then show ?case by (simp add: map_snd_zip [unfolded snd_def])
next
  case (snoc c cs)
  then show ?case
    by (auto simp: map2_map2_same)
qed

lemma foldl_accumulate:
  "length ps = length xs \<Longrightarrow>
   foldl (\<lambda>pl c. map2 (\<lambda>x p. p + (g c x :: real)) xs pl) ps cs
   = map2 (\<lambda>x p. p + (\<Sum>c\<leftarrow>cs. g c x)) xs ps"
proof (induction cs rule: rev_induct)
  case Nil
  then show ?case by (simp add: map_snd_zip [unfolded snd_def])
next
  case (snoc c cs)
  then show ?case
    by (simp add: snoc.IH map2_map2_same add.assoc)
qed

lemma foldl_place_square:
  "foldl (place_square w xs) (map (\<lambda>_. 0) xs) cs
   = map (\<lambda>x. case find (\<lambda>c. in_span w c x) (rev cs) of None \<Rightarrow> 0 | Some c \<Rightarrow> 1) xs"
proof -
  have "place_square w xs = (\<lambda>pl c. map2 (\<lambda>x p. if in_span w c x then 1 else p) xs pl)"
    by (intro ext) (simp add: place_square_def)
  then show ?thesis
    by (simp add: foldl_overwrite [where g = "\<lambda>c x. 1"] map2_const_right)
qed

lemma foldl_place_triangle:
  "foldl (place_triangle w xs) (map (\<lambda>_. 0) xs) cs
   = map (\<lambda>x. case find (\<lambda>c. in_span w c x) (rev cs) of None \<Rightarrow> 0
                | Some c \<Rightarrow> x - c + w / 2) xs"
proof -
  have "place_triangle w xs
        = (\<lambda>pl c. map2 (\<lambda>x p. if in_span w c x then x - c + w / 2 else p) xs pl)"
    by (intro ext) (simp add: place_triangle_def)
  then show ?thesis
    by (simp add: foldl_overwrite [where g = "\<lambda>c x. x - c + w / 2"] map2_const_right)
qed

lemma foldl_add_gaussian:
  "foldl (add_gaussian w xs) (map (\<lambda>_. 0) xs) cs
   = map (\<lambda>x. \<Sum>c\<leftarrow>cs. exp (- (x - c)\<^sup>2 / (2 * (w / 2.355)\<^sup>2))) xs"
proof -
  have "add_gaussian w xs
        = (\<lambda>pl c. map2 (\<lambda>x p. p + exp (- (x - c)\<^sup>2 / (2 * (w / 2.355)\<^sup>2))) xs pl)"
    by (intro ext) (simp add: add_gaussian_def)
  then show ?thesis
    by (simp only: foldl_accumulate [where g = "\<lambda>c x. exp (- (x - c)\<^sup>2 / (2 * (w / 2.355)\<^sup>2))"]
                   map2_const_right length_map add_0)
qed



lemma get_1d_plant_eq:
  assumes "dx \<noteq> 0"
  shows "get_1d_plant centers ref_center width shape dx xmax =
     (let w = (case width of None \<Rightarrow> dx | Some wd \<Rightarrow> wd);
          cs = map (\<lambda>c. c - ref_center) centers;
          x_vec = map (\<lambda>i. of_int \<lfloor>- xmax / 2\<rfloor> + real i * dx)
                    [0..<nat \<lceil>(of_int \<lfloor>xmax / 2\<rfloor> - of_int \<lfloor>- xmax / 2\<rfloor>) / dx\<rceil>]
      in if lower shape = ''square''
         then Inr (map (\<lambda>x. case find (\<lambda>c. in_span w c x) (rev cs) of
                              None \<Rightarrow> 0 | Some c \<Rightarrow> 1) x_vec, x_vec)
         else if lower shape = ''triangle''
         then Inr (map (\<lambda>x. case find (\<lambda>c. in_span w c x) (rev cs) of
                              None \<Rightarrow> 0 | Some c \<Rightarrow> x - c + w / 2) x_vec, x_vec)
         else if lower shape = ''gaussian''
         then Inr (map (\<lambda>x. \<Sum>c\<leftarrow>cs. exp (- (x - c)\<^sup>2 / (2 * (w / 2.355)\<^sup>2))) x_vec,
                   x_vec)
         else Inl (ValueError (''No info for plant shape: '' @ shape)))"
  using assms
  by (simp only: get_1d_plant_def arange_def Let_def if_False sum.case
        foldl_place_square foldl_place_triangle foldl_add_gaussian)

text \<open>
  Claim C6. One centre at 0, width \<open>w\<close>, a shape tag that lower-cases to \<open>square\<close>,
  \<open>dx = 1\<close> and \<open>xmax = 100\<close>: the grid is \<open>-50, -49, \<dots>, 49\<close> and the density is
  exactly 1 at the grid positions in \<open>[-w/2, w/2)\<close> and exactly 0 at all others.
\<close>

theorem get_1d_plant_single_square:
  assumes "lower shape = ''square''"
  shows "get_1d_plant [0] 0 (Some w) shape 1 100 =
           Inr (map (\<lambda>x. if - w / 2 \<le> x \<and> x < w / 2 then 1 else 0)
                  (map (\<lambda>i. real i - 50) [0..<100]),
                map (\<lambda>i. real i - 50) [0..<100])"
proof -
  have 1: "(1::real) \<noteq> 0" by simp
  show ?thesis
    unfolding get_1d_plant_eq [OF 1]
    by (simp add: assms in_span_def Let_def)
qed

theorem get_1d_plant_single_square_witness:
  "lower ''Square'' = ''square'' \<and>
   get_1d_plant [0] 0 (Some 4) ''Square'' 1 100 =
     Inr (map (\<lambda>x. if - 2 \<le> x \<and> x < 2 then 1 else 0) (map (\<lambda>i. real i - 50) [0..<100]),
          map (\<lambda>i. real i - 50) [0..<100])"
proof -
  have l: "lower ''Square'' = ''square''"
    by (simp add: lower_eval lower_char_def char_of_eq_iff)
  show ?thesis
    using l get_1d_plant_single_square [OF l, of 4] by simp
qed

text \<open>
  Claim C7. With a square or triangle footprint the value at a grid position is the one
  written by the last centre of the list whose half-open span contains the position
  (0 if there is none): every site overwrites what was placed before it. With a Gaussian
  footprint the value is the sum of the bumps of all centres. Here \<open>w\<close> is the width
  (\<open>dx\<close> when none is given) and the centres are taken relative to the reference.
\<close>

theorem get_1d_plant_overlap:
  assumes "get_1d_plant centers ref_center width shape dx xmax = Inr (plant, x_vec)"
  shows "(lower shape = ''square'' \<longrightarrow>
            plant = map (\<lambda>x. case find (\<lambda>c. in_span (case width of None \<Rightarrow> dx | Some wd \<Rightarrow> wd) c x)
                                    (rev (map (\<lambda>c. c - ref_center) centers)) of
                               None \<Rightarrow> 0 | Some c \<Rightarrow> 1) x_vec) \<and>
         (lower shape = ''triangle'' \<longrightarrow>
            plant = map (\<lambda>x. case find (\<lambda>c. in_span (case width of None \<Rightarrow> dx | Some wd \<Rightarrow> wd) c x)
                                    (rev (map (\<lambda>c. c - ref_center) centers)) of
                               None \<Rightarrow> 0
                             | Some c \<Rightarrow> x - c + (case width of None \<Rightarrow> dx | Some wd \<Rightarrow> wd) / 2)
                        x_vec) \<and>
         (lower shape = ''gaussian'' \<and> (case width of None \<Rightarrow> dx | Some wd \<Rightarrow> wd) \<noteq> 0 \<longrightarrow>
            plant = map (\<lambda>x. \<Sum>c\<leftarrow>map (\<lambda>c. c - ref_center) centers.
                               exp (- (x - c)\<^sup>2 /
                                     (2 * ((case width of None \<Rightarrow> dx | Some wd \<Rightarrow> wd) / 2.355)\<^sup>2)))
                        x_vec)"
proof -
  have dx: "dx \<noteq> 0"
    using assms by (auto simp: get_1d_plant_def arange_def)
  show ?thesis
    using assms unfolding get_1d_plant_eq [OF dx] Let_def
    by (auto split: if_splits)
qed

theorem get_1d_plant_overlap_witness:
  "get_1d_plant [0, 1] 0 (Some 4) ''Square'' 1 6 = Inr ([0, 1, 1, 1, 1, 1], [-3, -2, -1, 0, 1, 2]) \<and>
   [0, 1, 1, 1, 1, 1] =
     map (\<lambda>x. case find (\<lambda>c. in_span 4 c x) (rev (map (\<lambda>c. c - 0) [0, 1])) of
                 None \<Rightarrow> 0 | Some c \<Rightarrow> 1) [-3, -2, -1, 0, 1, 2 :: real] \<and>
   get_1d_plant [0, 1] 0 (Some 4) ''triangle'' 1 6 = Inr ([0, 0, 0, 1, 2, 3], [-3, -2, -1, 0, 1, 2]) \<and>
   [0, 0, 0, 1, 2, 3] =
     map (\<lambda>x. case find (\<lambda>c. in_span 4 c x) (rev (map (\<lambda>c. c - 0) [0, 1])) of
                 None \<Rightarrow> 0 | Some c \<Rightarrow> x - c + 4 / 2) [-3, -2, -1, 0, 1, 2 :: real] \<and>
   get_1d_plant [0, 1] 0 (Some 2.355) ''gaussian'' 1 2 =
     Inr ([exp (- 1 / 2) + exp (- 2), 1 + exp (- 1 / 2)], [-1, 0]) \<and>
   [exp (- 1 / 2) + exp (- 2), 1 + exp (- 1 / 2)] =
     map (\<lambda>x. \<Sum>c\<leftarrow>map (\<lambda>c. c - 0) [0, 1]. exp (- (x - c)\<^sup>2 / (2 * (2.355 / 2.355)\<^sup>2)))
       [-1, 0 :: real]"
proof -
  have sq: "get_1d_plant [0, 1] 0 (Some 4) ''Square'' 1 6
            = Inr ([0, 1, 1, 1, 1, 1], [-3, -2, -1, 0, 1, 2])"
    by (simp add: plant_eval)
  have tr: "get_1d_plant [0, 1] 0 (Some 4) ''triangle'' 1 6
            = Inr ([0, 0, 0, 1, 2, 3], [-3, -2, -1, 0, 1, 2])"
    by (simp add: plant_eval)
  have ga: "get_1d_plant [0, 1] 0 (Some 2.355) ''gaussian'' 1 2
            = Inr ([exp (- 1 / 2) + exp (- 2), 1 + exp (- 1 / 2)], [-1, 0])"
    by (simp add: plant_eval)
  have l: "lower ''Square'' = ''square''" "lower ''triangle'' = ''triangle''"
    "lower ''gaussian'' = ''gaussian''"
    by (simp_all add: lower_eval lower_char_def char_of_eq_iff)
  show ?thesis
    using get_1d_plant_overlap [OF sq] get_1d_plant_overlap [OF tr]
      get_1d_plant_overlap [OF ga] sq tr ga l
    by (simp add: in_span_def)
qed




section \<open>Facts about the numerical collaborator\<close>


lemma length_fftfreq: "length (fftfreq n d) = n"
proof -
  have z: "(z - 1) div 2 + 1 + z div 2 = z" "0 \<le> (z - 1) div 2 + 1" "0 \<le> z div 2"
    if "0 \<le> z" for z :: int
    using that by presburger+
  have "nat ((int n - 1) div 2 + 1) + nat (int n div 2)
        = nat ((int n - 1) div 2 + 1 + int n div 2)"
    using z(2,3) [of "int n"] by (simp add: nat_add_distrib)
  then have "nat ((int n - 1) div 2 + 1) + nat (int n div 2) = n"
    using z(1) [of "int n"] by simp
  then show ?thesis
    by (simp add: fftfreq_def)
qed



lemma length_fft: "length (fft a) = length a"
  by (simp add: fft_def Let_def)

lemma fft_nth:
  assumes "k < length a"
  shows "fft a ! k = (\<Sum>m<length a. a ! m * cis (- (2 * pi * real m * real k / real (length a))))"
  using assms
  by (simp add: fft_def Let_def interv_sum_list_conv_sum_set_nat atLeast0LessThan)

lemma fftfreq_nth_0:
  assumes "0 < n"
  shows "fftfreq n d ! 0 = 0"
proof -
  have "[0..(int n - 1) div 2] = 0 # [1..(int n - 1) div 2]"
    using assms by (subst upto.simps) simp
  then show ?thesis
    by (simp add: fftfreq_def)
qed

















section \<open>Properties of the filter application\<close>












section \<open>Properties of the cloud advection model filter\<close>

lemma sum_list_point_mass:
  fixes plant :: "real list"
  assumes "k < length plant" and "\<forall>j<length plant. j \<noteq> k \<longrightarrow> plant ! j = 0"
  shows "sum_list plant = plant ! k"
proof -
  have "sum_list plant = (\<Sum>i = 0..<length plant. plant ! i)"
    by (rule sum_list_sum_nth)
  also have "\<dots> = (\<Sum>i = 0..<length plant. if i = k then plant ! k else 0)"
    using assms(2) by (intro sum.cong) auto
  also have "\<dots> = plant ! k"
    using assms(1) by simp
  finally show ?thesis .
qed

lemma fft_point_mass:
  assumes "k < length a" and "a ! k = 1" and "\<forall>j<length a. j \<noteq> k \<longrightarrow> a ! j = 0"
    and "j < length a"
  shows "fft a ! j = cis (- (2 * pi * real k * real j / real (length a)))"
proof -
  let ?w = "\<lambda>m. cis (- (2 * pi * real m * real j / real (length a)))"
  have "fft a ! j = (\<Sum>m<length a. a ! m * ?w m)"
    by (rule fft_nth [OF assms(4)])
  also have "\<dots> = (\<Sum>m<length a. if m = k then ?w k else 0)"
    using assms(2,3) by (intro sum.cong) auto
  also have "\<dots> = ?w k"
    using assms(1) by simp
  finally show ?thesis .
qed

lemma cmod_phase_shift:
  "cmod (c * exp (\<i> * of_real f * (2 * of_real pi) * of_real t)) = cmod c"
proof -
  have "\<i> * of_real f * (2 * of_real pi) * of_real t = \<i> * complex_of_real (f * (2 * pi) * t)"
    by simp
  then have "exp (\<i> * of_real f * (2 * of_real pi) * of_real t) = cis (f * (2 * pi) * t)"
    by (simp only: cis_conv_exp)
  then show ?thesis
    by (simp add: norm_mult)
qed

text \<open>
  Claim C4. A density that is non-zero at exactly one grid cell, on a grid with at least
  two positions and a non-zero step, and a non-zero cloud speed: the call succeeds,
  every value of the filter has magnitude 1, and the first entry, at frequency 0, is
  exactly 1.
\<close>

theorem plant1d_to_camfilter_point_source:
  assumes "x_plant = x0 # x1 # xs" and "x0 \<noteq> x1" and "cloud_speed \<noteq> 0"
    and "k < length plant" and "plant ! k \<noteq> 0"
    and "\<forall>j<length plant. j \<noteq> k \<longrightarrow> plant ! j = 0"
  shows "\<exists>r. plant1d_to_camfilter plant x_plant cloud_speed = Inr r \<and>
             length (vals r) = length plant \<and> length (index r) = length plant \<and>
             (\<forall>z \<in> set (vals r). cmod z = 1) \<and>
             index r ! 0 = 0 \<and> vals r ! 0 = 1"
proof -
  let ?n = "length plant"
  let ?a = "map complex_of_real (map (\<lambda>p. p / sum_list plant) plant)"
  let ?camfreq = "fftfreq ?n ((x1 - x0) / \<bar>cloud_speed\<bar>)"
  let ?t = "Min (set x_plant) / cloud_speed"
  let ?shift = "\<lambda>c f. c * exp (\<i> * of_real f * (2 * of_real pi) * of_real ?t)"
  let ?rev_shift = "\<lambda>c f. cnj (c * exp (\<i> * of_real f * (2 * of_real pi) * of_real (- ?t)))"
  let ?vals = "if 0 < cloud_speed then map2 ?shift (fft ?a) ?camfreq
               else map2 ?rev_shift (fft ?a) ?camfreq"
  let ?r = "\<lparr>index = ?camfreq, vals = ?vals, dtype = Complex128\<rparr>"
  have n: "0 < ?n" using assms(4) by (cases plant) simp_all
  have run: "plant1d_to_camfilter plant x_plant cloud_speed = Inr ?r"
    using n by (simp add: plant1d_to_camfilter_def assms(1) Let_def)
  have total: "sum_list plant = plant ! k"
    by (rule sum_list_point_mass [OF assms(4,6)])
  have ak: "?a ! k = 1"
    using assms(4,5) by (simp add: total)
  have aj: "\<forall>j<length ?a. j \<noteq> k \<longrightarrow> ?a ! j = 0"
    using assms(6) by simp
  have spec: "fft ?a ! j = cis (- (2 * pi * real k * real j / real ?n))" if "j < ?n" for j
    using fft_point_mass [of k ?a j] ak aj assms(4) that by simp
  have len: "length ?vals = ?n"
    by (simp add: length_fft length_fftfreq)
  have unit: "cmod (?vals ! j) = 1" if "j < ?n" for j
  proof -
    have c: "cmod (fft ?a ! j) = 1"
      by (simp only: spec [OF that] norm_cis)
    show ?thesis
    proof (cases "0 < cloud_speed")
      case True
      then have "?vals ! j = ?shift (fft ?a ! j) (?camfreq ! j)"
        using that by (simp add: length_fft length_fftfreq)
      then show ?thesis
        by (simp only: cmod_phase_shift c)
    next
      case False
      then have "?vals ! j = ?rev_shift (fft ?a ! j) (?camfreq ! j)"
        using that by (simp add: length_fft length_fftfreq)
      then show ?thesis
        by (simp only: complex_mod_cnj cmod_phase_shift c)
    qed
  qed
  have all: "\<forall>z \<in> set ?vals. cmod z = 1"
    using unit len by (metis in_set_conv_nth)
  have f0: "?camfreq ! 0 = 0"
    by (rule fftfreq_nth_0 [OF n])
  have a0: "fft ?a ! 0 = 1"
    using spec [OF n] by simp
  have v0: "?vals ! 0 = 1"
  proof (cases "0 < cloud_speed")
    case True
    then have "?vals ! 0 = ?shift (fft ?a ! 0) (?camfreq ! 0)"
      using n by (simp add: length_fft length_fftfreq)
    then show ?thesis
      using a0 f0 by simp
  next
    case False
    then have "?vals ! 0 = ?rev_shift (fft ?a ! 0) (?camfreq ! 0)"
      using n by (simp add: length_fft length_fftfreq)
    then show ?thesis
      using a0 f0 by simp
  qed
  show ?thesis
    using run len all f0 v0 by (simp add: length_fftfreq)
qed


theorem plant1d_to_camfilter_point_source_witness:
  "[- 2, - 1, 0, 1 :: real] = - 2 # - 1 # [0, 1] \<and> (- 2 :: real) \<noteq> - 1 \<and> (2 :: real) \<noteq> 0 \<and>
   1 < length [0, 3, 0, 0 :: real] \<and> [0, 3, 0, 0 :: real] ! 1 \<noteq> 0 \<and>
   [0, 3, 0, 0 :: real] ! 0 = 0 \<and> [0, 3, 0, 0 :: real] ! 2 = 0 \<and> [0, 3, 0, 0 :: real] ! 3 = 0 \<and>
   (\<exists>r. plant1d_to_camfilter [0, 3, 0, 0] [- 2, - 1, 0, 1] 2 = Inr r \<and>
        length (vals r) = length [0, 3, 0, 0 :: real] \<and>
        length (index r) = length [0, 3, 0, 0 :: real] \<and>
        (\<forall>z \<in> set (vals r). cmod z = 1) \<and>
        index r ! 0 = 0 \<and> vals r ! 0 = 1)"
proof -
  have h1: "[- 2, - 1, 0, 1 :: real] = - 2 # - 1 # [0, 1]" by simp
  have h2: "(- 2 :: real) \<noteq> - 1" by simp
  have h3: "(2 :: real) \<noteq> 0" by simp
  have h4: "1 < length [0, 3, 0, 0 :: real]" by simp
  have h5: "[0, 3, 0, 0 :: real] ! 1 \<noteq> 0" by simp
  have h6: "\<forall>j<length [0, 3, 0, 0 :: real]. j \<noteq> 1 \<longrightarrow> [0, 3, 0, 0 :: real] ! j = 0"
    by (simp add: nth_Cons' less_Suc_eq)
  have h7: "[0, 3, 0, 0 :: real] ! 0 = 0" "[0, 3, 0, 0 :: real] ! 2 = 0"
    "[0, 3, 0, 0 :: real] ! 3 = 0"
    by simp_all
  from plant1d_to_camfilter_point_source [OF h1 h2 h3 h4 h5 h6] h1 h2 h3 h4 h5 h7
  show ?thesis by blast
qed

section \<open>Properties of the Marcos filter\<close>

lemma linspace_default:
  "linspace 0 0.5 100 = map (\<lambda>i. real i * (0.5 / 99)) [0..<100]"
proof -
  let ?xs = "map (\<lambda>i. 0 + real i * ((0.5 - 0) / real (100 - 1))) [0..<100]"
  have "?xs ! 99 = 0.5"
    by (simp del: upt_Suc)
  then have "?xs[99 := 0.5] = ?xs"
    by (metis list_update_id)
  then show ?thesis
    by (simp add: linspace_def del: upt_Suc)
qed

text \<open>
  Claim C5. For a plant area \<open>s > 0\<close> the result is indexed by the given frequency grid,
  or by the 100 points \<open>i * 0.5/99\<close>, \<open>i = 0, \<dots>, 99\<close>, from 0 to 0.5 when none is given;
  its value at a frequency \<open>f\<close> is \<open>1 / (1 + i f / fc)\<close> with \<open>fc = 0.02 / sqrt s\<close>;
  and its element type is 32-bit complex.
\<close>

theorem get_marcosfilter_values:
  assumes "0 < s"
  shows "index (get_marcosfilter s freq)
           = (case freq of None \<Rightarrow> map (\<lambda>i. real i * (0.5 / 99)) [0..<100] | Some fr \<Rightarrow> fr) \<and>
         vals (get_marcosfilter s freq)
           = map (\<lambda>f. 1 / (1 + \<i> * of_real f / of_real (0.02 / sqrt s)))
               (index (get_marcosfilter s freq)) \<and>
         dtype (get_marcosfilter s freq) = Complex64 \<and>
         0.02 / sqrt s \<noteq> 0 \<and>
         length (index (get_marcosfilter s None)) = 100 \<and>
         hd (index (get_marcosfilter s None)) = 0 \<and>
         last (index (get_marcosfilter s None)) = 0.5"
proof -
  let ?grid = "map (\<lambda>i. real i * (0.5 / 99)) [0..<100]"
  have idx: "index (get_marcosfilter s fr) = (case fr of None \<Rightarrow> ?grid | Some g \<Rightarrow> g)" for fr
    unfolding get_marcosfilter_def Let_def linspace_default
    by (cases fr) simp_all
  have vls: "vals (get_marcosfilter s freq)
             = map (\<lambda>f. 1 / (1 + \<i> * of_real f / of_real (0.02 / sqrt s)))
                 (index (get_marcosfilter s freq))"
    unfolding get_marcosfilter_def Let_def
    by (simp add: add.commute)
  have dt: "dtype (get_marcosfilter s freq) = Complex64"
    by (simp add: get_marcosfilter_def Let_def)
  have fc: "0.02 / sqrt s \<noteq> 0"
    using assms by simp
  have len: "length ?grid = 100"
    by (simp del: upt_Suc)
  have first: "hd ?grid = 0"
    by (simp add: hd_map upt_rec [of 0 100] del: upt_Suc)
  have final: "last ?grid = 0.5"
    by (simp add: last_map del: upt_Suc)
  show ?thesis
    unfolding idx [of None] option.case
    using idx [of freq] vls dt fc len first final by blast
qed

theorem get_marcosfilter_values_witness:
  "(0::real) < 4 \<and>
   index (get_marcosfilter 4 (Some [0, 0.01])) = [0, 0.01] \<and>
   vals (get_marcosfilter 4 (Some [0, 0.01])) = [1, 1 / (1 + \<i>)] \<and>
   dtype (get_marcosfilter 4 (Some [0, 0.01])) = Complex64"
proof -
  have p: "(0::real) < 4" by simp
  show ?thesis
    using p get_marcosfilter_values [OF p, of "Some [0, 0.01]"] by simp
qed

section \<open>Properties of the averaged transfer function\<close>

lemmas spectral_eval =
  averaged_tf_def averaged_psd_def coherence_def welch_def csd_def spectral_helper_def
  fft_helper_def scale_of_def detrend_func_def segments_def onesided_double_def
  scipy_get_window_def hann_def rfft_def rfftfreq_def fft_def detrend_linear_def
  detrend_constant_def py_int_def broadcast2_def np_divide_def Let_def

lemma length_rfft: "length (rfft a) = min (length a div 2 + 1) (length a)"
  by (simp add: rfft_def length_fft)

lemma length_rfftfreq: "length (rfftfreq n d) = n div 2 + 1"
  by (simp add: rfftfreq_def)

lemma length_detrend_linear: "length (detrend_linear d) = length d"
  by (simp add: detrend_linear_def Let_def)

lemma length_detrend_constant: "length (detrend_constant d) = length d"
  by (simp add: detrend_constant_def)

lemma detrend_func_length:
  assumes "detrend_func type = Inr f"
  shows "length (f d) = length d"
  using assms
  by (auto simp: detrend_func_def length_detrend_linear length_detrend_constant
        split: if_splits)

lemma int_div_mult_le:
  fixes a b :: int
  assumes "0 < b"
  shows "a div b * b \<le> a"
proof -
  have "b * (a div b) + a mod b = a"
    by (rule mult_div_mod_eq)
  moreover have "0 \<le> a mod b"
    using assms by (rule pos_mod_sign)
  ultimately have "b * (a div b) \<le> a"
    by linarith
  then show ?thesis
    by (simp only: mult.commute)
qed

lemma segments_length:
  assumes "1 \<le> nps" and "0 \<le> noverlap" and "noverlap < int nps" and "nps \<le> length x"
    and "seg \<in> set (segments nps noverlap x)"
  shows "length seg = nps"
proof (cases "nps = 1 \<and> noverlap = 0")
  case True
  with assms(5) show ?thesis
    by (auto simp: segments_def)
next
  case False
  define step where "step = nat (int nps - noverlap)"
  define k where "k = nat ((int (length x) - noverlap) div int step)"
  have step: "0 < step" "int step = int nps - noverlap"
    using assms(3) by (simp_all add: step_def)
  from assms(5) False obtain i where i: "i < k" and seg: "seg = take nps (drop (i * step) x)"
    by (auto simp: segments_def Let_def step_def k_def)
  have "int k * int step \<le> int (length x) - noverlap"
  proof -
    have "0 \<le> (int (length x) - noverlap) div int step"
      using assms(3,4) step by (simp add: pos_imp_zdiv_nonneg_iff)
    then have "int k = (int (length x) - noverlap) div int step"
      by (simp add: k_def)
    moreover have "(int (length x) - noverlap) div int step * int step \<le> int (length x) - noverlap"
      using step(1) by (intro int_div_mult_le) simp
    ultimately show ?thesis by simp
  qed
  moreover have "(int i + 1) * int step \<le> int k * int step"
    using i by (intro mult_right_mono) simp_all
  ultimately have "int i * int step + int step \<le> int (length x) - noverlap"
    by (simp add: algebra_simps)
  then have "int (i * step) + int nps \<le> int (length x)"
    using step(2) by simp
  then have "i * step + nps \<le> length x"
    by linarith
  then show ?thesis
    by (simp add: seg)
qed

lemma segments_nonempty:
  assumes "1 \<le> nps" and "0 \<le> noverlap" and "noverlap < int nps" and "nps \<le> length x"
  shows "segments nps noverlap x \<noteq> []"
proof (cases "nps = 1 \<and> noverlap = 0")
  case True
  with assms(4) show ?thesis
    by (auto simp: segments_def)
next
  case False
  have step: "0 < int nps - noverlap"
    using assms(3) by simp
  have "int nps - noverlap \<le> int (length x) - noverlap"
    using assms(4) by simp
  then have "(int nps - noverlap) div (int nps - noverlap)
             \<le> (int (length x) - noverlap) div (int nps - noverlap)"
    using step by (intro zdiv_mono1)
  then have "1 \<le> (int (length x) - noverlap) div (int nps - noverlap)"
    using step by simp
  then have "0 < nat ((int (length x) - noverlap) div (int nps - noverlap))"
    by simp
  then show ?thesis
    using False step by (auto simp: segments_def Let_def)
qed

lemma map2_same: "map2 g (map h xs) (map h xs) = map (\<lambda>s. g (h s) (h s)) xs"
  by (induction xs) simp_all

lemma map2_diag: "map2 g r r = map (\<lambda>a. g a a) r"
  by (induction r) simp_all

lemma Im_sum_list_map: "Im (\<Sum>s\<leftarrow>L. h s) = (\<Sum>s\<leftarrow>L. Im (h s))"
  by (induction L) simp_all

lemma Im_cnj_mult_self: "Im (cnj a * a * complex_of_real s) = 0"
  by (simp add: mult.commute)

lemma onesided_double_real:
  assumes "\<forall>j<length P. Im (P ! j) = 0"
  shows "length (onesided_double nfft P) = length P"
    and "\<forall>j<length P. Im (onesided_double nfft P ! j) = 0"
  using assms by (simp_all add: onesided_double_def)

lemma spectral_helper_self:
  assumes "x \<noteq> []" and "1 \<le> nperseg" and "nperseg \<le> int (length x)"
    and "gw window (nat nperseg) = Inr win" and "noverlap < nperseg"
    and "detrend_func detrend = Inr f"
  shows "spectral_helper gw x x fs window nperseg noverlap detrend ''density''
         = Inr (map (\<lambda>seg. onesided_double (nat nperseg)
                         (map (\<lambda>a. cnj a * a * of_real (1 / (fs * (\<Sum>w\<leftarrow>win. w * w))))
                            (rfft (map2 (*) win (f seg)))))
                  (segments (nat nperseg) noverlap x))"
proof -
  have pad: "x @ replicate (max (length x) (length x) - length x) 0 = x"
    by simp
  have nps: "min (nat nperseg) (max (length x) (length x)) = nat nperseg"
    using assms(2,3) by simp
  have c1: "(x = []) = False"
    using assms(1) by simp
  have c2: "(nperseg < 1) = False"
    using assms(2) by simp
  have c3: "(int (nat nperseg) \<le> noverlap) = False"
    using assms(2,5) by simp
  show ?thesis
    by (simp only: spectral_helper_def Let_def pad nps c1 c2 c3 if_False if_True assms(4,6)
          sum.case scale_of_def fft_helper_def simp_thms map2_same map2_diag map_map o_def)
qed

lemma csd_self:
  assumes "x \<noteq> []" and "1 \<le> nperseg" and "nperseg \<le> int (length x)"
    and "gw window (nat nperseg) = Inr win" and "length win = nat nperseg"
    and "0 \<le> noverlap" and "noverlap < nperseg"
    and "detrend_func detrend = Inr f"
  shows "\<exists>P. csd gw x x fs window nperseg noverlap detrend ''density'' = Inr P \<and>
             length P = nat nperseg div 2 + 1 \<and> (\<forall>j<length P. Im (P ! j) = 0)"
proof -
  let ?nps = "nat nperseg"
  let ?L = "?nps div 2 + 1"
  let ?scale = "1 / (fs * (\<Sum>w\<leftarrow>win. w * w))"
  let ?spec = "\<lambda>seg. onesided_double ?nps
                       (map (\<lambda>a. cnj a * a * of_real ?scale) (rfft (map2 (*) win (f seg))))"
  let ?segs = "segments ?nps noverlap x"
  have n1: "1 \<le> ?nps" "?nps \<le> length x" "noverlap < int ?nps"
    using assms(2,3,7) by simp_all
  have sh: "spectral_helper gw x x fs window nperseg noverlap detrend ''density''
            = Inr (map ?spec ?segs)"
    using assms(1,2,3,4,7,8) by (rule spectral_helper_self)
  have seglen: "length seg = ?nps" if "seg \<in> set ?segs" for seg
    by (rule segments_length [OF n1(1) assms(6) n1(3) n1(2) that])
  have ne: "?segs \<noteq> []"
    by (rule segments_nonempty [OF n1(1) assms(6) n1(3) n1(2)])
  have raw: "length (rfft (map2 (*) win (f seg))) = ?L" if "seg \<in> set ?segs" for seg
    using seglen [OF that] n1(1)
    by (simp add: length_rfft detrend_func_length [OF assms(8)] assms(5))
  have inner: "\<forall>j<length (map (\<lambda>a. cnj a * a * of_real ?scale) r).
                 Im (map (\<lambda>a. cnj a * a * of_real ?scale) r ! j) = 0" for r
    by (simp add: Im_cnj_mult_self del: of_real_divide of_real_mult)
  have slen: "length (?spec seg) = ?L" if "seg \<in> set ?segs" for seg
    using onesided_double_real(1) [OF inner] raw [OF that] by simp
  have sreal: "Im (?spec seg ! j) = 0" if "seg \<in> set ?segs" "j < ?L" for seg j
    using onesided_double_real(2) [OF inner] raw [OF that(1)] that(2) by simp
  obtain s0 rest where segs: "?segs = s0 # rest"
    using ne by (cases ?segs) auto
  show ?thesis
  proof (cases rest)
    case Nil
    then have "csd gw x x fs window nperseg noverlap detrend ''density'' = Inr (?spec s0)"
      by (simp add: csd_def sh segs)
    moreover have "s0 \<in> set ?segs"
      by (simp add: segs)
    ultimately show ?thesis
      using slen sreal by auto
  next
    case (Cons s1 rest')
    let ?P = "map (\<lambda>j. (\<Sum>s\<leftarrow>map ?spec ?segs. s ! j) / of_nat (length (map ?spec ?segs)))
                [0..<length (?spec s0)]"
    have c: "csd gw x x fs window nperseg noverlap detrend ''density'' = Inr ?P"
      unfolding csd_def sh sum.case
      by (simp add: segs Cons)
    have s0: "s0 \<in> set ?segs"
      by (simp add: segs)
    have l: "length ?P = ?L"
      using slen [OF s0] by simp
    have "Im ((\<Sum>s\<leftarrow>map ?spec ?segs. s ! j) / of_nat (length (map ?spec ?segs))) = 0"
      if "j < ?L" for j
    proof -
      have "Im (\<Sum>s\<leftarrow>map ?spec ?segs. s ! j) = (\<Sum>s\<leftarrow>map ?spec ?segs. Im (s ! j))"
        by (rule Im_sum_list_map)
      also have "\<dots> = (\<Sum>seg\<leftarrow>?segs. Im (?spec seg ! j))"
        by (simp only: map_map o_def)
      also have "\<dots> = (\<Sum>seg\<leftarrow>?segs. 0)"
        using sreal that by (intro arg_cong [where f = sum_list] map_cong refl) simp
      finally have "Im (\<Sum>s\<leftarrow>map ?spec ?segs. s ! j) = 0"
        by simp
      then show ?thesis
        by (simp add: Im_divide_of_nat)
    qed
    then have "Im (?P ! j) = 0" if "j < length ?P" for j
      using that l slen [OF s0] by (simp only: length_map length_upt nth_map_upt diff_zero add_0)
    then have "\<forall>j<length ?P. Im (?P ! j) = 0"
      by blast
    with c l show ?thesis by blast
  qed
qed

lemma map2_map_right: "map2 g xs (map h xs) = map (\<lambda>x. g x (h x)) xs"
  by (induction xs) simp_all

lemma self_ratio:
  assumes "Im c = 0"
  shows "np_divide c (complex_of_real (Re c)) = (if Re c = 0 then None else Some 1)"
    and "(case np_divide ((cmod c)\<^sup>2) (Re c) of None \<Rightarrow> None | Some v \<Rightarrow> np_divide v (Re c))
         = (if Re c = 0 then None else Some 1)"
proof -
  have c: "c = complex_of_real (Re c)"
    using assms by (simp add: complex_eq_iff)
  show "np_divide c (complex_of_real (Re c)) = (if Re c = 0 then None else Some 1)"
    using c by (auto simp: np_divide_def)
  have "(cmod c)\<^sup>2 = Re c * Re c"
    using assms by (simp add: cmod_def power2_eq_square)
  then show "(case np_divide ((cmod c)\<^sup>2) (Re c) of None \<Rightarrow> None | Some v \<Rightarrow> np_divide v (Re c))
             = (if Re c = 0 then None else Some 1)"
    by (simp add: np_divide_def)
qed

lemma py_int_overlap:
  assumes "1 \<le> nperseg" and "0 \<le> overlap" and "overlap < 1"
  shows "0 \<le> py_int (real_of_int nperseg * overlap)"
    and "py_int (real_of_int nperseg * overlap) < nperseg"
proof -
  have nn: "0 \<le> real_of_int nperseg * overlap"
    using assms(1,2) by simp
  then show "0 \<le> py_int (real_of_int nperseg * overlap)"
    by (simp add: py_int_def)
  have "real_of_int nperseg * overlap < real_of_int nperseg * 1"
    using assms(1,3) by (intro mult_strict_left_mono) simp_all
  then have "\<lfloor>real_of_int nperseg * overlap\<rfloor> < nperseg"
    by (simp add: floor_less_iff)
  then show "py_int (real_of_int nperseg * overlap) < nperseg"
    using nn by (simp add: py_int_def)
qed

lemma averaged_psd_alternating:
  "averaged_psd scipy_get_window \<lparr>index = [0, 1], vals = [1, - 1], dtype = Float64\<rparr>
     1 0.5 ''hanning'' ''constant'' ''density''
   = Inr \<lparr>index = [0, 1 / 2], vals = [1, 1], dtype = Float64\<rparr>"
  by (simp add: spectral_eval upt_rec [of _ "numeral _"])


lemma list2_eqI:
  assumes "length xs = 2" and "xs ! 0 = a" and "xs ! 1 = b"
  shows "xs = [a, b]"
  using assms by (auto simp: length_Suc_conv numeral_2_eq_2)

text \<open>
  Claim C3, as stated: for every signal the estimate of \<open>(x, x)\<close> is \<open>1 + 0i\<close> with
  coherence 1 at every bin. For the signal that is zero at four samples, with one average
  and the default overlap, window and detrending, the spectral density is zero at all
  three bins, so transfer function and coherence are \<open>0/0\<close>: not a number.
\<close>

theorem averaged_tf_zero_signal:
  "averaged_tf scipy_get_window
     \<lparr>index = [0, 1, 2, 3], vals = [0, 0, 0, 0], dtype = Float64\<rparr>
     \<lparr>index = [0, 1, 2, 3], vals = [0, 0, 0, 0], dtype = Float64\<rparr>
     1 0.5 ''hanning'' ''linear''
   = Inr \<lparr>freq_index = [0, 1 / 4, 1 / 2], tf_column = [None, None, None],
          coh_column = [None, None, None]\<rparr>"
  by (simp add: spectral_eval upt_rec [of _ "numeral _"])

text \<open>
  Claim C3, amended: for a signal \<open>x\<close> with at least two samples and a non-zero sampling
  interval, \<open>1 \<le> navgs \<le> len(x)\<close>, an overlap in \<open>[0, 1)\<close>, a window the window
  table knows and linear or constant detrending, \<open>averaged_tf(x, x)\<close> succeeds, and
  at every frequency bin where the averaged spectral density of \<open>x\<close> is not zero the
  transfer function is \<open>1 + 0i\<close> and the coherence is 1; at a bin where it is zero both
  are non-finite.
\<close>

theorem averaged_tf_self:
  assumes "index x = t0 # t1 # ts" and "t0 \<noteq> t1" and "length (vals x) = length (index x)"
    and "1 \<le> navgs" and "navgs \<le> int (length (vals x))"
    and "0 \<le> overlap" and "overlap < 1"
    and "gw window (nat (int (length (vals x)) div navgs)) = Inr win"
    and "length win = nat (int (length (vals x)) div navgs)"
    and "detrend = ''linear'' \<or> detrend = ''constant''"
  shows "\<exists>psdxx out.
           averaged_psd gw x navgs overlap window detrend ''density'' = Inr psdxx \<and>
           averaged_tf gw x x navgs overlap window detrend = Inr out \<and>
           freq_index out = index psdxx \<and>
           length (index psdxx) = nat (int (length (vals x)) div navgs) div 2 + 1 \<and>
           length (vals psdxx) = length (index psdxx) \<and>
           length (tf_column out) = length (index psdxx) \<and>
           length (coh_column out) = length (index psdxx) \<and>
           (\<forall>j<length (index psdxx).
              (vals psdxx ! j \<noteq> 0 \<longrightarrow> tf_column out ! j = Some 1 \<and> coh_column out ! j = Some 1) \<and>
              (vals psdxx ! j = 0 \<longrightarrow> tf_column out ! j = None \<and> coh_column out ! j = None))"
proof -
  let ?n = "length (vals x)"
  let ?nperseg = "int ?n div navgs"
  let ?noverlap = "py_int (real_of_int ?nperseg * overlap)"
  let ?fs = "1 / (t1 - t0)"
  let ?L = "nat ?nperseg div 2 + 1"
  have ne: "vals x \<noteq> []"
    using assms(1,3) by auto
  have dt: "t1 - t0 \<noteq> 0" and na: "navgs \<noteq> 0"
    using assms(2,4) by simp_all
  have "navgs div navgs \<le> int ?n div navgs"
    using assms(4,5) by (intro zdiv_mono1) simp_all
  then have p1: "1 \<le> ?nperseg"
    using assms(4) by simp
  have "?nperseg \<le> int ?n div 1"
    using assms(4) by (intro zdiv_mono2) simp_all
  then have p2: "?nperseg \<le> int ?n"
    by simp
  have nps: "min (nat ?nperseg) ?n = nat ?nperseg"
    using p2 by simp
  have ov: "0 \<le> ?noverlap" "?noverlap < ?nperseg"
    by (rule py_int_overlap [OF p1 assms(6,7)])+
  obtain f where f: "detrend_func detrend = Inr f"
    using assms(10) by (auto simp: detrend_func_def)
  have "\<exists>P. csd gw (vals x) (vals x) ?fs window ?nperseg ?noverlap detrend ''density'' = Inr P \<and>
             length P = ?L \<and> (\<forall>j<length P. Im (P ! j) = 0)"
    using ne p1 p2 assms(8,9) ov f by (rule csd_self)
  then obtain P where P: "csd gw (vals x) (vals x) ?fs window ?nperseg ?noverlap detrend ''density''
                          = Inr P"
    and lenP: "length P = ?L" and real: "\<forall>j<length P. Im (P ! j) = 0"
    by blast
  let ?psd = "\<lparr>index = rfftfreq (nat ?nperseg) (1 / ?fs), vals = map Re P, dtype = Float64\<rparr>"
  let ?tf = "map (\<lambda>c. np_divide c (complex_of_real (Re c))) P"
  let ?coh = "map (\<lambda>c. case np_divide ((cmod c)\<^sup>2) (Re c) of None \<Rightarrow> None
                          | Some v \<Rightarrow> np_divide v (Re c)) P"
  let ?out = "\<lparr>freq_index = index ?psd, tf_column = ?tf, coh_column = ?coh\<rparr>"
  have w: "welch gw (vals x) ?fs window ?nperseg ?noverlap detrend ''density''
           = Inr (map Re P)"
    by (simp add: welch_def P)
  have psd: "averaged_psd gw x navgs overlap window detrend ''density'' = Inr ?psd"
    unfolding averaged_psd_def Let_def assms(1) list.case
    using dt na by (simp add: w nps)
  have q: "broadcast2 (\<lambda>c p. np_divide ((cmod c)\<^sup>2) p) P (map Re P)
           = Inr (map (\<lambda>c. np_divide ((cmod c)\<^sup>2) (Re c)) P)"
    by (simp add: broadcast2_def map2_map_right)
  have q2: "broadcast2 (\<lambda>a p. case a of None \<Rightarrow> None | Some v \<Rightarrow> np_divide v p)
              (map (\<lambda>c. np_divide ((cmod c)\<^sup>2) (Re c)) P) (map Re P) = Inr ?coh"
  proof -
    have "map2 (\<lambda>a p. case a of None \<Rightarrow> None | Some v \<Rightarrow> np_divide v p)
            (map (\<lambda>c. np_divide ((cmod c)\<^sup>2) (Re c)) P) (map Re P) = ?coh"
      by (induction P) simp_all
    then show ?thesis
      by (simp add: broadcast2_def)
  qed
  have coh: "coherence gw (vals x) (vals x) ?fs window ?nperseg ?noverlap detrend = Inr ?coh"
    unfolding coherence_def w P sum.case q q2 ..
  have tfc: "map2 (\<lambda>c p. np_divide c (complex_of_real p)) P (vals ?psd) = ?tf"
    by (simp add: map2_map_right)
  have out: "averaged_tf gw x x navgs overlap window detrend = Inr ?out"
    unfolding averaged_tf_def Let_def assms(1) list.case psd P coh sum.case tfc
    using dt na by (simp add: lenP length_rfftfreq)
  have pt: "(vals ?psd ! j \<noteq> 0 \<longrightarrow> ?tf ! j = Some 1 \<and> ?coh ! j = Some 1) \<and>
            (vals ?psd ! j = 0 \<longrightarrow> ?tf ! j = None \<and> ?coh ! j = None)" if "j < ?L" for j
  proof -
    have j: "j < length P" using that lenP by simp
    then have im: "Im (P ! j) = 0" using real by blast
    have "vals ?psd ! j = Re (P ! j)"
      "?tf ! j = np_divide (P ! j) (complex_of_real (Re (P ! j)))"
      "?coh ! j = (case np_divide ((cmod (P ! j))\<^sup>2) (Re (P ! j)) of None \<Rightarrow> None
                   | Some v \<Rightarrow> np_divide v (Re (P ! j)))"
      using j by simp_all
    then show ?thesis
      unfolding self_ratio [OF im] by simp
  qed
  have l1: "length (index ?psd) = ?L"
    by (simp add: length_rfftfreq)
  have l2: "length (vals ?psd) = length (index ?psd)"
    by (simp add: length_rfftfreq lenP)
  have l3: "length (tf_column ?out) = length (index ?psd)"
    by (simp add: length_rfftfreq lenP)
  have l4: "length (coh_column ?out) = length (index ?psd)"
    by (simp add: length_rfftfreq lenP)
  have l5: "freq_index ?out = index ?psd"
    by simp
  have all: "\<forall>j<length (index ?psd).
               (vals ?psd ! j \<noteq> 0 \<longrightarrow> tf_column ?out ! j = Some 1 \<and> coh_column ?out ! j = Some 1) \<and>
               (vals ?psd ! j = 0 \<longrightarrow> tf_column ?out ! j = None \<and> coh_column ?out ! j = None)"
    unfolding l1 using pt by simp
  show ?thesis
  proof (intro exI conjI)
    show "averaged_psd gw x navgs overlap window detrend ''density'' = Inr ?psd"
      by (fact psd)
    show "averaged_tf gw x x navgs overlap window detrend = Inr ?out"
      by (fact out)
  qed (fact l1 l2 l3 l4 l5 all)+
qed

theorem averaged_tf_self_witness:
  "index \<lparr>index = [0, 1 :: real], vals = [1, - 1 :: real], dtype = Float64\<rparr> = 0 # 1 # [] \<and>
   (0 :: real) \<noteq> 1 \<and> (1 :: int) \<le> 1 \<and> (0 :: real) \<le> 0.5 \<and> (0.5 :: real) < 1 \<and>
   scipy_get_window ''hanning'' 2 = Inr [0, 1] \<and>
   averaged_tf scipy_get_window \<lparr>index = [0, 1], vals = [1, - 1], dtype = Float64\<rparr>
     \<lparr>index = [0, 1], vals = [1, - 1], dtype = Float64\<rparr> 1 0.5 ''hanning'' ''constant''
   = Inr \<lparr>freq_index = [0, 1 / 2], tf_column = [Some 1, Some 1],
          coh_column = [Some 1, Some 1]\<rparr>"
proof -
  let ?sig = "\<lparr>index = [0, 1 :: real], vals = [1, - 1 :: real], dtype = Float64\<rparr>"
  have h1: "index ?sig = 0 # 1 # []" by simp
  have h2: "(0 :: real) \<noteq> 1" by simp
  have h3: "length (vals ?sig) = length (index ?sig)" by simp
  have h4: "(1 :: int) \<le> 1" by simp
  have h5: "(1 :: int) \<le> int (length (vals ?sig))" by simp
  have h6: "(0 :: real) \<le> 0.5" by simp
  have h7: "(0.5 :: real) < 1" by simp
  have w: "scipy_get_window ''hanning'' 2 = Inr [0, 1]"
    by (simp add: scipy_get_window_def hann_def upt_rec [of _ "numeral _"])
  have h8: "scipy_get_window ''hanning'' (nat (int (length (vals ?sig)) div 1)) = Inr [0, 1]"
    using w by (simp add: numeral_2_eq_2)
  have h9: "length [0, 1 :: real] = nat (int (length (vals ?sig)) div 1)" by simp
  have h10: "''constant'' = ''linear'' \<or> ''constant'' = ''constant''" by simp
  obtain psdxx out where
    psd: "averaged_psd scipy_get_window ?sig 1 0.5 ''hanning'' ''constant'' ''density'' = Inr psdxx"
    and out: "averaged_tf scipy_get_window ?sig ?sig 1 0.5 ''hanning'' ''constant'' = Inr out"
    and fr: "freq_index out = index psdxx"
    and len: "length (tf_column out) = length (index psdxx)"
      "length (coh_column out) = length (index psdxx)"
    and pt: "\<forall>j<length (index psdxx).
               (vals psdxx ! j \<noteq> 0 \<longrightarrow> tf_column out ! j = Some 1 \<and> coh_column out ! j = Some 1) \<and>
               (vals psdxx ! j = 0 \<longrightarrow> tf_column out ! j = None \<and> coh_column out ! j = None)"
    using averaged_tf_self [where gw = scipy_get_window and window = "''hanning''",
        OF h1 h2 h3 h4 h5 h6 h7 h8 h9 h10]
    by blast
  have p: "psdxx = \<lparr>index = [0, 1 / 2], vals = [1, 1], dtype = Float64\<rparr>"
    using psd unfolding averaged_psd_alternating by simp
  have "tf_column out = [Some 1, Some 1]" "coh_column out = [Some 1, Some 1]"
    using len pt unfolding p by (auto intro!: list2_eqI)
  moreover have "freq_index out = [0, 1 / 2]"
    using fr unfolding p by simp
  ultimately have "out = \<lparr>freq_index = [0, 1 / 2], tf_column = [Some 1, Some 1],
                           coh_column = [Some 1, Some 1]\<rparr>"
    by (cases out) simp
  with out h1 h2 h4 h6 h7 w show ?thesis
    by simp
qed

end
